theory Spec2Isabelle
  imports Main
begin

section \<open>Python values and errors\<close>

text \<open>
  The rules engine of \<^verbatim>\<open>mlpstorage/rules.py\<close> is embedded function by function.
  Python's unbounded integers are \<^typ>\<open>int\<close>; a raised exception is the \<open>Inl\<close> side of
  a sum; a dictionary whose values all have one type is a map, and a dictionary read in
  iteration order is an association list.

  An exception is given by its class and its text (\<^verbatim>\<open>str(e)\<close> for every class but
  \<^verbatim>\<open>KeyError\<close>, which carries the missing key). Where the interpreter raises by itself
  the text is CPython's. \<^verbatim>\<open>SystemExit\<close> stands for the exceptions outside the class
  \<^verbatim>\<open>Exception\<close>, which an \<^verbatim>\<open>except Exception\<close> clause does not catch.
\<close>

datatype error =
    ValueError string
  | TypeError string
  | KeyError string
  | AttributeError string
  | ZeroDivisionError string
  | IndexError string
  | OverflowError string
  | SystemExit string

fun is_Exception :: "error \<Rightarrow> bool" where
  "is_Exception (SystemExit t) = False"
| "is_Exception e = True"

definition quoted :: "string \<Rightarrow> string" where
  "quoted s = CHR 0x27 # s @ [CHR 0x27]"

text \<open>
  \<^verbatim>\<open>repr\<close> of a string, which is the text of a \<^verbatim>\<open>KeyError\<close> raised for that key.
  A character is a code point below 256. The quote is the double quote when the string has
  a single quote and no double quote, and the single quote otherwise; the quote and the
  backslash are escaped with a backslash; tab, newline and carriage return have their
  letter escapes; every other non-printable code point (below 32, from 127 to 160, and
  173) is written \<^verbatim>\<open>\xhh\<close> with two lower-case hexadecimal digits.
\<close>

definition printable :: "char \<Rightarrow> bool" where
  "printable c =
     (let n = (of_char c :: nat) in (32 \<le> n \<and> n < 127) \<or> (161 \<le> n \<and> n \<noteq> 173))"

definition hex2 :: "char \<Rightarrow> string" where
  "hex2 c =
     (let n = (of_char c :: nat)
      in [''0123456789abcdef'' ! (n div 16), ''0123456789abcdef'' ! (n mod 16)])"

definition repr_char :: "char \<Rightarrow> char \<Rightarrow> string" where
  "repr_char q c =
     (if c = q \<or> c = CHR 0x5C then [CHR 0x5C, c]
      else if c = CHR 0x09 then [CHR 0x5C, CHR ''t'']
      else if c = CHR 0x0A then [CHR 0x5C, CHR ''n'']
      else if c = CHR 0x0D then [CHR 0x5C, CHR ''r'']
      else if printable c then [c]
      else [CHR 0x5C, CHR ''x''] @ hex2 c)"

definition py_repr :: "string \<Rightarrow> string" where
  "py_repr s =
     (let q = (if CHR 0x27 \<in> set s \<and> CHR 0x22 \<notin> set s then CHR 0x22 else CHR 0x27)
      in q # concat (map (repr_char q) s) @ [q])"

text \<open>\<^verbatim>\<open>str(e)\<close>; the text of a \<^verbatim>\<open>KeyError\<close> is the \<^verbatim>\<open>repr\<close> of the key.\<close>

fun error_text :: "error \<Rightarrow> string" where
  "error_text (ValueError t) = t"
| "error_text (TypeError t) = t"
| "error_text (KeyError k) = py_repr k"
| "error_text (AttributeError t) = t"
| "error_text (ZeroDivisionError t) = t"
| "error_text (IndexError t) = t"
| "error_text (OverflowError t) = t"
| "error_text (SystemExit t) = t"

text \<open>
  \<^verbatim>\<open>d[k]\<close> raises KeyError on a missing key; \<^verbatim>\<open>a // b\<close> raises on a zero divisor and
  is floor division otherwise, which is what \<open>div\<close> on \<^typ>\<open>int\<close> computes.
\<close>

definition getitem :: "(string \<rightharpoonup> 'v) \<Rightarrow> string \<Rightarrow> error + 'v" where
  "getitem d k = (case d k of None \<Rightarrow> Inl (KeyError k) | Some v \<Rightarrow> Inr v)"

definition floordiv :: "int \<Rightarrow> int \<Rightarrow> error + int" where
  "floordiv a b =
     (if b = 0 then Inl (ZeroDivisionError ''integer division or modulo by zero'')
      else Inr (a div b))"

text \<open>
  Sequencing of computations that may raise: the first error ends the computation.
\<close>

definition and_then :: "error + 'a \<Rightarrow> ('a \<Rightarrow> error + 'b) \<Rightarrow> error + 'b" where
  "and_then r f = (case r of Inl e \<Rightarrow> Inl e | Inr x \<Rightarrow> f x)"

section \<open>Enumerations and documents\<close>

text \<open>
  Modelled from the spec: the enumeration \<^verbatim>\<open>PARAM_VALIDATION\<close> is imported from
  \<^verbatim>\<open>mlpstorage.config\<close>, which is not among the sources. The specification gives a
  finding exactly three classification tags, \<^verbatim>\<open>OPEN\<close>, \<^verbatim>\<open>CLOSED\<close> and
  \<^verbatim>\<open>INVALID\<close>, and the sources use these three members and no other. The
  upper-cased member value, \<^verbatim>\<open>cat.value.upper()\<close>, is the tag's name.
\<close>

datatype PARAM_VALIDATION = CLOSED | OPEN | INVALID

fun value_upper :: "PARAM_VALIDATION \<Rightarrow> string" where
  "value_upper CLOSED = ''CLOSED''"
| "value_upper OPEN = ''OPEN''"
| "value_upper INVALID = ''INVALID''"

text \<open>
  Modelled from the spec: \<^verbatim>\<open>BENCHMARK_TYPES\<close> comes from the same absent module. The
  sources name the members \<^verbatim>\<open>training\<close>, \<^verbatim>\<open>checkpointing\<close> and
  \<^verbatim>\<open>vector_database\<close>; \<^verbatim>\<open>.name\<close> of an enumeration member is its identifier.
\<close>

datatype BENCHMARK_TYPES = training | checkpointing | vector_database

fun type_name :: "BENCHMARK_TYPES \<Rightarrow> string" where
  "type_name training = ''training''"
| "type_name checkpointing = ''checkpointing''"
| "type_name vector_database = ''vector_database''"

text \<open>
  The values found in parsed JSON and YAML documents. Dictionary keys are strings and a
  dictionary keeps its insertion order. Floating-point numbers are left out.
\<close>

datatype pyval =
    PNone
  | PBool bool
  | PInt int
  | PStr string
  | PList "pyval list"
  | PDict "(string \<times> pyval) list"

fun class_name :: "pyval \<Rightarrow> string" where
  "class_name PNone = ''NoneType''"
| "class_name (PBool b) = ''bool''"
| "class_name (PInt n) = ''int''"
| "class_name (PStr s) = ''str''"
| "class_name (PList xs) = ''list''"
| "class_name (PDict d) = ''dict''"

fun truthy :: "pyval \<Rightarrow> bool" where
  "truthy PNone = False"
| "truthy (PBool b) = b"
| "truthy (PInt n) = (n \<noteq> 0)"
| "truthy (PStr s) = (s \<noteq> [])"
| "truthy (PList xs) = (xs \<noteq> [])"
| "truthy (PDict d) = (d \<noteq> [])"

text \<open>
  The errors raised below by the interpreter itself, with the text of the exception:
  reading an attribute the object does not have, adding a non-number to an integer,
  iterating over what is not iterable.
\<close>

definition no_attribute :: "string \<Rightarrow> string \<Rightarrow> error" where
  "no_attribute cls attr =
     AttributeError (quoted cls @ '' object has no attribute '' @ quoted attr)"

definition unsupported_operand :: "string \<Rightarrow> pyval \<Rightarrow> error" where
  "unsupported_operand opr v =
     TypeError (''unsupported operand type(s) for '' @ opr @ '': '' @ quoted ''int'' @ '' and ''
                @ quoted (class_name v))"

definition not_iterable :: "pyval \<Rightarrow> error" where
  "not_iterable v = TypeError (quoted (class_name v) @ '' object is not iterable'')"

text \<open>
  \<^verbatim>\<open>v.get(k, default)\<close>: only a dictionary has the method.
\<close>

fun py_get :: "pyval \<Rightarrow> string \<Rightarrow> pyval \<Rightarrow> error + pyval" where
  "py_get (PDict d) k dflt = Inr (case map_of d k of None \<Rightarrow> dflt | Some v \<Rightarrow> v)"
| "py_get v k dflt = Inl (no_attribute (class_name v) ''get'')"

text \<open>
  Iteration: a list yields its elements, a dictionary its keys, a string its characters;
  nothing else here is iterable.
\<close>

fun py_iter :: "pyval \<Rightarrow> error + pyval list" where
  "py_iter (PList xs) = Inr xs"
| "py_iter (PDict d) = Inr (map (\<lambda>kv. PStr (fst kv)) d)"
| "py_iter (PStr s) = Inr (map (\<lambda>c. PStr [c]) s)"
| "py_iter v = Inl (not_iterable v)"

text \<open>
  Adding a document value to an integer accumulator (\<^verbatim>\<open>acc + v\<close>, \<^verbatim>\<open>acc += v\<close>):
  an integer is added, a Boolean counts as 0 or 1, anything else raises TypeError.
\<close>

fun add_to_int :: "string \<Rightarrow> int \<Rightarrow> pyval \<Rightarrow> error + int" where
  "add_to_int opr acc (PInt n) = Inr (acc + n)"
| "add_to_int opr acc (PBool b) = Inr (acc + (if b then 1 else 0))"
| "add_to_int opr acc v = Inl (unsupported_operand opr v)"

fun sum_from :: "int \<Rightarrow> pyval list \<Rightarrow> error + int" where
  "sum_from acc [] = Inr acc"
| "sum_from acc (v # vs) = and_then (add_to_int ''+'' acc v) (\<lambda>acc'. sum_from acc' vs)"

definition py_sum :: "pyval \<Rightarrow> error + int" where
  "py_sum v = and_then (py_iter v) (sum_from 0)"

subsection \<open>Strings\<close>

definition startswith :: "string \<Rightarrow> string \<Rightarrow> bool" where
  "startswith s p = (take (length p) s = p)"

text \<open>\<^verbatim>\<open>s.split(c)\<close> for a one-character separator: never an empty list.\<close>

fun split :: "char \<Rightarrow> string \<Rightarrow> string list" where
  "split c [] = [[]]"
| "split c (x # xs) =
     (if x = c then [] # split c xs
      else (case split c xs of [] \<Rightarrow> [[x]] | w # ws \<Rightarrow> (x # w) # ws))"

text \<open>
  \<^verbatim>\<open>s.replace(old, new)\<close> for a non-empty \<open>old\<close>: occurrences are replaced from the
  left and do not overlap. The counter is the number of characters of a matched
  occurrence still to be skipped.
\<close>

fun replace_from :: "nat \<Rightarrow> string \<Rightarrow> string \<Rightarrow> string \<Rightarrow> string" where
  "replace_from k old new [] = []"
| "replace_from k old new (c # cs) =
     (if 0 < k then replace_from (k - 1) old new cs
      else if startswith (c # cs) old then new @ replace_from (length old - 1) old new cs
      else c # replace_from 0 old new cs)"

definition replace :: "string \<Rightarrow> string \<Rightarrow> string \<Rightarrow> string" where
  "replace s old new = replace_from 0 old new s"

text \<open>The decimal text of an integer, as \<^verbatim>\<open>str\<close> and an f-string give it.\<close>

fun str_nat :: "nat \<Rightarrow> string" where
  "str_nat n =
     (if n < 10 then [''0123456789'' ! n]
      else str_nat (n div 10) @ [''0123456789'' ! (n mod 10)])"

definition str_int :: "int \<Rightarrow> string" where
  "str_int i = (if i < 0 then CHR ''-'' # str_nat (nat (- i)) else str_nat (nat i))"

section \<open>Cluster information\<close>

text \<open>
  The aggregated totals. They are integers here: a total computed from fractional
  per-host gigabyte figures is a floating-point number and lies outside the embedding.
\<close>

record ClusterInformation =
  total_memory_bytes :: int
  total_cores :: int

section \<open>Dataset sizing: \<^verbatim>\<open>calculate_training_data_size\<close>\<close>

text \<open>
  The fields of the command-line namespace that the function reads. An option that was
  not given on the command line is \<open>None\<close>. The third branch of the source reads the
  attribute spelled \<^verbatim>\<open>clienthost_host_memory_in_gb\<close>, which differs from the name read
  in the second branch; the field is \<open>None\<close> when the namespace has no attribute of
  that name, and reading it raises then.
\<close>

record sizing_args =
  client_host_memory_in_gb :: "int option"
  num_client_hosts :: "int option"
  clienthost_host_memory_in_gb :: "int option option"
  hosts :: "string list"
  sizing_num_processes :: "int option"

text \<open>Truthiness of an optional integer: \<open>None\<close> and \<open>0\<close> are false.\<close>

definition truthy_int :: "int option \<Rightarrow> bool" where
  "truthy_int v = (case v of None \<Rightarrow> False | Some n \<Rightarrow> n \<noteq> 0)"

text \<open>
  The first block of the function: where the total memory and the process count come
  from. \<^verbatim>\<open>not args\<close> holds exactly for \<^verbatim>\<open>args = None\<close> (a namespace object is
  truthy); then the cluster information is read, and reading it off \<^verbatim>\<open>None\<close> raises.
  The multiplications in the two override branches are guarded by the truthiness tests,
  so their operands are integers there.
\<close>

definition memory_source ::
  "sizing_args option \<Rightarrow> ClusterInformation option \<Rightarrow> int option \<Rightarrow> error + (int \<times> int option)" where
  "memory_source args cluster_information num_processes =
     (case args of
        None \<Rightarrow>
          (case cluster_information of
             None \<Rightarrow> Inl (no_attribute ''NoneType'' ''total_memory_bytes'')
           | Some ci \<Rightarrow> Inr (total_memory_bytes ci, num_processes))
      | Some a \<Rightarrow>
          if truthy_int (client_host_memory_in_gb a) \<and> truthy_int (num_client_hosts a) then
            Inr (the (client_host_memory_in_gb a) * 1024 * 1024 * 1024 * the (num_client_hosts a),
                 sizing_num_processes a)
          else
            (case clienthost_host_memory_in_gb a of
               None \<Rightarrow> Inl (no_attribute ''Namespace'' ''clienthost_host_memory_in_gb'')
             | Some gb \<Rightarrow>
                 if truthy_int gb \<and> \<not> truthy_int (num_client_hosts a) then
                   Inr (the gb * 1024 * 1024 * 1024 * int (length (hosts a)),
                        sizing_num_processes a)
                 else Inl (ValueError ''Either args or cluster_information is required'')))"

text \<open>
  The arithmetic part, statement by statement and in the source's evaluation order:
  \<^verbatim>\<open>dataset_size_bytes\<close>, \<^verbatim>\<open>file_size_bytes\<close> (two dictionary reads),
  \<^verbatim>\<open>min_num_files_by_bytes\<close> (a floor division), \<^verbatim>\<open>min_samples\<close> (the product
  \<^verbatim>\<open>500 * num_processes\<close> is formed first and raises TypeError on \<^verbatim>\<open>None\<close>, then
  \<^verbatim>\<open>batch_size\<close> is read), \<^verbatim>\<open>min_num_files_by_samples\<close>, the maximum and the
  disk size. The result is the triple (required_file_count, required_subfolders_count,
  total_disk_bytes); \<^verbatim>\<open>required_subfolders_count\<close> is assigned \<open>0\<close> once and never again,
  and \<^verbatim>\<open>int\<close> applied to an integer in the return statement changes nothing.

  Between the computation and the return the function formats its diagnostics. One of
  these lines evaluates \<^verbatim>\<open>required_file_count * file_size_bytes / 1024 / 1024\<close>: the
  first division is a true division of integers, which raises \<^verbatim>\<open>OverflowError\<close> when
  the quotient rounds to a value beyond the largest floating-point number, that is, when
  the size is \<open>2^1034 - 2^980\<close> bytes or more in absolute value. The other diagnostic
  lines format integers and cannot raise.
\<close>

definition megabytes_finite :: "int \<Rightarrow> bool" where
  "megabytes_finite total_disk_bytes = (\<bar>total_disk_bytes\<bar> < 2 ^ 1034 - 2 ^ 980)"

definition min_num_files_by_bytes :: "int \<Rightarrow> int \<Rightarrow> error + int" where
  "min_num_files_by_bytes total_mem_bytes file_size_bytes =
     floordiv (5 * total_mem_bytes) file_size_bytes"

definition min_num_files_by_samples :: "int \<Rightarrow> int \<Rightarrow> int \<Rightarrow> error + int" where
  "min_num_files_by_samples num_processes batch_size num_samples_per_file =
     floordiv (500 * num_processes * batch_size) num_samples_per_file"

definition calculate_training_data_size ::
  "sizing_args option \<Rightarrow> ClusterInformation option \<Rightarrow> (string \<rightharpoonup> int) \<Rightarrow> (string \<rightharpoonup> int)
     \<Rightarrow> int option \<Rightarrow> error + (int \<times> int \<times> int)" where
  "calculate_training_data_size args cluster_information dataset_params reader_params num_processes =
     (case memory_source args cluster_information num_processes of
        Inl e \<Rightarrow> Inl e
      | Inr (total_mem_bytes, procs) \<Rightarrow>
     (case getitem dataset_params ''num_samples_per_file'' of
        Inl e \<Rightarrow> Inl e
      | Inr spf \<Rightarrow>
     (case getitem dataset_params ''record_length_bytes'' of
        Inl e \<Rightarrow> Inl e
      | Inr rlb \<Rightarrow>
     (case min_num_files_by_bytes total_mem_bytes (spf * rlb) of
        Inl e \<Rightarrow> Inl e
      | Inr by_bytes \<Rightarrow>
     (case procs of
        None \<Rightarrow> Inl (unsupported_operand ''*'' PNone)
      | Some p \<Rightarrow>
     (case getitem reader_params ''batch_size'' of
        Inl e \<Rightarrow> Inl e
      | Inr bs \<Rightarrow>
     (case min_num_files_by_samples p bs spf of
        Inl e \<Rightarrow> Inl e
      | Inr by_samples \<Rightarrow>
          (let required_file_count = max by_bytes by_samples;
               total_disk_bytes = required_file_count * (spf * rlb)
           in if megabytes_finite total_disk_bytes
              then Inr (required_file_count, 0, total_disk_bytes)
              else Inl (OverflowError ''integer division result too large for a float'')))))))))"

section \<open>Findings, run identity and the run facts model\<close>

text \<open>
  What the \<^verbatim>\<open>expected\<close> and \<^verbatim>\<open>actual\<close> fields of a finding hold: a plain value, or
  a list built by iterating over a Python set of strings. The language does not fix the
  order of that iteration, so such a list is given by its elements.
\<close>

datatype field_value = Plain pyval | ListOfSet "string set"

record Issue =
  validation :: PARAM_VALIDATION
  message :: string
  parameter :: "string option"
  expected :: "field_value option"
  actual :: "field_value option"
  severity :: string

record RunID =
  program :: string
  rid_command :: "string option"
  rid_model :: "string option"
  rid_run_datetime :: pyval

text \<open>
  The two sources a run is built from. Of a live benchmark object the constructor reads
  its type, three attributes of its argument namespace (\<^verbatim>\<open>model\<close> and
  \<^verbatim>\<open>command\<close> through \<^verbatim>\<open>getattr\<close> with default \<^verbatim>\<open>None\<close>), the run time, the
  combined parameters when the object has them, the namespace as a dictionary, the
  override dictionary, and the cluster information when the object has it. A result holds
  its directory and the parsed documents; \<^verbatim>\<open>summary\<close> and \<^verbatim>\<open>metadata\<close> stay
  \<^verbatim>\<open>None\<close> when the file is absent or unreadable. Override values are the text to the
  right of \<^verbatim>\<open>=\<close>, hence strings.
\<close>

record Benchmark =
  BENCHMARK_TYPE :: BENCHMARK_TYPES
  args_model :: "string option"
  args_command :: "string option"
  args_num_processes :: pyval
  inst_run_datetime :: string
  combined_params :: "pyval option"
  args_vars :: pyval
  params_dict :: "(string \<times> string) list"
  cluster_information :: "ClusterInformation option"

record BenchmarkResult =
  benchmark_result_root_dir :: string
  metadata :: "pyval option"
  summary :: "pyval option"
  hydra_configs :: "(string \<times> pyval) list"

text \<open>
  The attributes of a \<^verbatim>\<open>BenchmarkRun\<close>. The logger is an argument of the constructor
  below and is not kept in the record: after construction no method of the run reads it.
  \<^verbatim>\<open>result_root_dir\<close> is assigned \<^verbatim>\<open>None\<close> once and never read, and is left out as
  well.
\<close>

record BenchmarkRun =
  benchmark_type :: "BENCHMARK_TYPES option"
  model :: "string option"
  accelerator :: "string option"
  command :: "string option"
  num_processes :: pyval
  parameters :: pyval
  override_parameters :: "(string \<times> string) list"
  system_info :: "ClusterInformation option"
  metrics :: pyval
  run_id_attr :: "RunID option"
  category :: "PARAM_VALIDATION option"
  issues :: "Issue list"
  run_datetime :: pyval
  benchmark_result :: "BenchmarkResult option"
  benchmark_instance :: "Benchmark option"
  post_execution :: bool

section \<open>Constructing a run: \<^verbatim>\<open>BenchmarkRun.__init__\<close>\<close>

text \<open>
  \<^verbatim>\<open>d[k] = v\<close> on a dictionary in insertion order: an existing key keeps its place.
\<close>

fun dict_set :: "('k \<times> 'v) list \<Rightarrow> 'k \<Rightarrow> 'v \<Rightarrow> ('k \<times> 'v) list" where
  "dict_set [] k v = [(k, v)]"
| "dict_set (kv # kvs) k v = (if fst kv = k then (k, v) # kvs else kv # dict_set kvs k v)"

text \<open>\<^verbatim>\<open>d[k]\<close> on a document value.\<close>

fun py_getitem :: "pyval \<Rightarrow> string \<Rightarrow> error + pyval" where
  "py_getitem (PDict d) k = (case map_of d k of None \<Rightarrow> Inl (KeyError k) | Some v \<Rightarrow> Inr v)"
| "py_getitem v k = Inl (TypeError (quoted (class_name v) @ '' object is not subscriptable''))"

text \<open>
  The attribute values assigned at the start of the constructor, before either source is
  processed. \<^verbatim>\<open>post_execution\<close> does not exist yet at that point and is assigned by
  both branches.
\<close>

definition initial_run :: "BenchmarkResult option \<Rightarrow> Benchmark option \<Rightarrow> BenchmarkRun" where
  "initial_run res inst =
     \<lparr>benchmark_type = None, model = None, accelerator = None, command = None,
      num_processes = PNone, parameters = PDict [], override_parameters = [],
      system_info = None, metrics = PDict [], run_id_attr = None, category = None,
      issues = [], run_datetime = PNone, benchmark_result = res, benchmark_instance = inst,
      post_execution = False\<rparr>"

definition process_benchmark_instance :: "Benchmark \<Rightarrow> BenchmarkRun \<Rightarrow> BenchmarkRun" where
  "process_benchmark_instance inst run =
     run\<lparr>benchmark_type := Some (BENCHMARK_TYPE inst),
         model := args_model inst,
         command := args_command inst,
         run_datetime := PStr (inst_run_datetime inst),
         num_processes := args_num_processes inst,
         parameters := (case combined_params inst of Some p \<Rightarrow> p | None \<Rightarrow> args_vars inst),
         override_parameters := params_dict inst,
         system_info := (case cluster_information inst of
                           Some ci \<Rightarrow> Some ci
                         | None \<Rightarrow> system_info run)\<rparr>"

text \<open>\<^verbatim>\<open>hydra_configs.get(name, default)\<close> on the dictionary of loaded documents.\<close>

definition hydra_get :: "BenchmarkResult \<Rightarrow> string \<Rightarrow> pyval \<Rightarrow> pyval" where
  "hydra_get res name dflt =
     (case map_of (hydra_configs res) name of None \<Rightarrow> dflt | Some doc \<Rightarrow> doc)"

text \<open>
  \<^verbatim>\<open>[i for i in hydra_workload_overrides if i.startswith('workload=')]\<close>, over the
  elements in order; an element that is not a string has no \<^verbatim>\<open>startswith\<close>.
\<close>

fun workload_entries :: "pyval list \<Rightarrow> error + string list" where
  "workload_entries [] = Inr []"
| "workload_entries (PStr i # vs) =
     and_then (workload_entries vs)
       (\<lambda>ws. Inr (if startswith i ''workload='' then i # ws else ws))"
| "workload_entries (v # vs) = Inl (no_attribute (class_name v) ''startswith'')"

text \<open>
  The loop over the override strings: \<^verbatim>\<open>p, v = param.split('=')\<close> needs exactly two
  parts, and the entries under \<^verbatim>\<open>++workload.\<close> are stored with the prefix cut off.
\<close>

fun collect_overrides ::
  "pyval list \<Rightarrow> (string \<times> string) list \<Rightarrow> error + (string \<times> string) list" where
  "collect_overrides [] acc = Inr acc"
| "collect_overrides (PStr param # ps) acc =
     (case split CHR ''='' param of
        [p, v] \<Rightarrow>
          collect_overrides ps
            (if startswith p ''++workload.'' then dict_set acc (drop (length ''++workload.'') p) v
             else acc)
      | [p] \<Rightarrow> Inl (ValueError ''not enough values to unpack (expected 2, got 1)'')
      | _ \<Rightarrow> Inl (ValueError ''too many values to unpack (expected 2)''))"
| "collect_overrides (v # ps) acc = Inl (no_attribute (class_name v) ''split'')"

text \<open>\<^verbatim>\<open>workloads[0].split('_')[1]\<close>.\<close>

definition accelerator_of :: "string list \<Rightarrow> error + string" where
  "accelerator_of workloads =
     (case workloads of
        [] \<Rightarrow> Inl (IndexError ''list index out of range'')
      | w # ws \<Rightarrow>
          (case split CHR ''_'' w of
             a # b # rest \<Rightarrow> Inr b
           | _ \<Rightarrow> Inl (IndexError ''list index out of range'')))"

text \<open>
  \<^verbatim>\<open>ClusterInformation.from_dlio_summary_json\<close>: the totals are the sums of the two
  summary arrays, the memory converted from GiB to bytes.
\<close>

definition from_dlio_summary_json :: "pyval \<Rightarrow> error + ClusterInformation" where
  "from_dlio_summary_json summ =
     and_then (py_get summ ''host_memory_GB'' PNone) (\<lambda>host_memories.
     and_then (py_get summ ''host_cpu_count'' PNone) (\<lambda>host_cpus.
     and_then (py_sum host_memories) (\<lambda>mem.
     and_then (py_sum host_cpus) (\<lambda>cores.
       Inr \<lparr>total_memory_bytes = mem * 1024 * 1024 * 1024, total_cores = cores\<rparr>))))"

text \<open>
  \<^verbatim>\<open>_process_benchmark_result\<close>, statement by statement. Reading \<^verbatim>\<open>.get\<close> off a
  \<^verbatim>\<open>summary\<close> that is \<^verbatim>\<open>None\<close> raises; the benchmark type stays \<^verbatim>\<open>None\<close> when no
  workflow stage is set; the model name must be a string for \<^verbatim>\<open>replace\<close>; the command
  is \<^verbatim>\<open>run_benchmark\<close> when the train stage is set and is overwritten by
  \<^verbatim>\<open>datagen\<close> when the generate-data stage is set.
\<close>

definition process_benchmark_result :: "BenchmarkResult \<Rightarrow> BenchmarkRun \<Rightarrow> error + BenchmarkRun" where
  "process_benchmark_result res run =
     and_then (case summary res of
                 None \<Rightarrow> Inl (no_attribute ''NoneType'' ''get'')
               | Some s \<Rightarrow> and_then (py_get s ''workload'' (PDict [])) (\<lambda>summary_workload. Inr s))
       (\<lambda>summ.
     and_then (py_get (hydra_get res ''config.yaml'' (PDict [])) ''workload'' (PDict []))
       (\<lambda>hydra_workload_config.
     and_then (py_get hydra_workload_config ''workflow'' (PDict [])) (\<lambda>hydra_workflow.
     and_then (py_get hydra_workflow ''generate_data'' (PDict [])) (\<lambda>workflow0.
     and_then (py_get hydra_workflow ''train'' (PDict [])) (\<lambda>workflow1.
     and_then (py_get hydra_workflow ''checkpoint'' (PDict [])) (\<lambda>workflow2.
     and_then (py_iter (hydra_get res ''overrides.yaml'' (PDict []))) (\<lambda>override_entries.
     and_then (workload_entries override_entries) (\<lambda>workloads.
     and_then (py_get hydra_workload_config ''model'' (PDict [])) (\<lambda>model_section.
     and_then (py_get model_section ''name'' PNone) (\<lambda>model_name.
     and_then (case model_name of
                 PStr n \<Rightarrow> Inr (replace (replace n ''llama_'' ''llama3_'') ''_'' ''-'')
               | v \<Rightarrow> Inl (no_attribute (class_name v) ''replace'')) (\<lambda>model_text.
     and_then (py_getitem summ ''num_accelerators'') (\<lambda>accelerators.
     (let btype = (if truthy workflow0 \<or> truthy workflow1 then Some training
                   else if truthy workflow2 then Some checkpointing
                   else None)
      in
     and_then (if btype = Some training \<and> truthy workflow1
               then and_then (accelerator_of workloads) (\<lambda>a. Inr (Some a))
               else Inr (accelerator run)) (\<lambda>accel.
     and_then (py_get summ ''start'' PNone) (\<lambda>start.
     and_then (py_iter (hydra_get res ''overrides.yaml'' (PList []))) (\<lambda>params.
     and_then (collect_overrides params (override_parameters run)) (\<lambda>overrides.
     and_then (py_get summ ''metric'' PNone) (\<lambda>metric.
     and_then (from_dlio_summary_json summ) (\<lambda>cluster.
       Inr (run\<lparr>benchmark_type := btype,
                model := Some model_text,
                num_processes := accelerators,
                command := (if btype = Some training
                            then (if truthy workflow0 then Some ''datagen''
                                  else if truthy workflow1 then Some ''run_benchmark''
                                  else command run)
                            else command run),
                accelerator := accel,
                run_datetime := start,
                parameters := hydra_workload_config,
                override_parameters := overrides,
                metrics := metric,
                system_info := Some cluster\<rparr>))))))))))))))))))))"

text \<open>
  The constructor's \<^verbatim>\<open>logger\<close> parameter defaults to \<^verbatim>\<open>None\<close>, and the constructor
  calls \<^verbatim>\<open>self.logger.error\<close> before each of its own raises and
  \<^verbatim>\<open>self.logger.info\<close> as its last statement. A call on a logger object changes no
  result; a call on \<^verbatim>\<open>None\<close> raises \<^verbatim>\<open>AttributeError\<close>.
\<close>

datatype logger = Logger

definition log_call :: "logger option \<Rightarrow> string \<Rightarrow> error + unit" where
  "log_call lg method =
     (case lg of None \<Rightarrow> Inl (no_attribute ''NoneType'' method) | Some l \<Rightarrow> Inr ())"

text \<open>
  The constructor. Both sources are objects, hence truthy when given, so the second
  guard raises exactly when both are given; the final \<^verbatim>\<open>else\<close> of the source repeats
  the first guard. After a source has been processed the run identity is built from
  \<^verbatim>\<open>self.benchmark_type.name\<close>, which raises when no benchmark type was found, and
  the run is logged.
\<close>

definition BenchmarkRun_init ::
  "logger option \<Rightarrow> BenchmarkResult option \<Rightarrow> Benchmark option \<Rightarrow> error + BenchmarkRun" where
  "BenchmarkRun_init lg res inst =
     (if res = None \<and> inst = None then
        and_then (log_call lg ''error'') (\<lambda>u.
          Inl (ValueError ''Either benchmark_result or benchmark_instance must be provided''))
      else if res \<noteq> None \<and> inst \<noteq> None then
        and_then (log_call lg ''error'') (\<lambda>u.
          Inl (ValueError ''Only one of benchmark_result and benchmark_instance can be provided''))
      else
        and_then
          (case inst of
             Some i \<Rightarrow>
               Inr ((process_benchmark_instance i (initial_run res inst))\<lparr>post_execution := False\<rparr>)
           | None \<Rightarrow>
               (case res of
                  Some r \<Rightarrow>
                    and_then (process_benchmark_result r (initial_run res inst))
                      (\<lambda>run. Inr (run\<lparr>post_execution := True\<rparr>))
                | None \<Rightarrow>
                    and_then (log_call lg ''error'') (\<lambda>u.
                      Inl (ValueError
                             ''Either benchmark_result or benchmark_instance must be provided''))))
          (\<lambda>run.
             (case benchmark_type run of
                None \<Rightarrow> Inl (no_attribute ''NoneType'' ''name'')
              | Some t \<Rightarrow>
                  and_then (log_call lg ''info'') (\<lambda>u.
                    Inr (run\<lparr>run_id_attr :=
                               Some \<lparr>program = type_name t, rid_command = command run,
                                     rid_model = model run,
                                     rid_run_datetime = run_datetime run\<rparr>\<rparr>)))))"

text \<open>
  The property \<^verbatim>\<open>run_id\<close>: the result directory of a run built from result files,
  the run identity otherwise.
\<close>

definition run_id :: "BenchmarkRun \<Rightarrow> error + (string + RunID option)" where
  "run_id run =
     (if post_execution run then
        (case benchmark_result run of
           None \<Rightarrow> Inl (no_attribute ''NoneType'' ''benchmark_result_root_dir'')
         | Some r \<Rightarrow> Inr (Inl (benchmark_result_root_dir r)))
      else Inr (Inr (run_id_attr run)))"

section \<open>Rule checkers\<close>

text \<open>
  A check method returns \<^verbatim>\<open>None\<close>, one finding or a list of findings, or raises. The
  checks read the runs their checker was built with and modify nothing, so a bound check
  method is given by its \<^verbatim>\<open>__name__\<close> and by what a call of it does.
  The checkers and the verifier are taken with a logger object, on which a call changes
  no result.
\<close>

datatype check_return = RNone | RIssue Issue | RList "Issue list"

type_synonym check_method = "string \<times> (error + check_return)"

text \<open>
  \<^verbatim>\<open>RulesChecker.run_checks\<close>: the loop over \<^verbatim>\<open>self.check_methods\<close>, with
  \<^verbatim>\<open>self.issues\<close> as the accumulator. A falsy return value (\<^verbatim>\<open>None\<close> or the empty
  list) adds nothing, a list is appended element by element, a single finding is
  appended. The handler catches the class \<^verbatim>\<open>Exception\<close> only; any other exception
  leaves the method.
\<close>

definition check_failed :: "string \<Rightarrow> error \<Rightarrow> Issue" where
  "check_failed name e =
     \<lparr>validation = INVALID,
      message = ''Check '' @ name @ '' failed with error: '' @ error_text e,
      parameter = None, expected = None, actual = None, severity = ''error''\<rparr>"

fun run_checks_loop :: "check_method list \<Rightarrow> Issue list \<Rightarrow> error + Issue list" where
  "run_checks_loop [] found = Inr found"
| "run_checks_loop (check_method # rest) found =
     (case snd check_method of
        Inr RNone \<Rightarrow> run_checks_loop rest found
      | Inr (RIssue i) \<Rightarrow> run_checks_loop rest (found @ [i])
      | Inr (RList method_issues) \<Rightarrow>
          run_checks_loop rest (if method_issues \<noteq> [] then found @ method_issues else found)
      | Inl e \<Rightarrow>
          if is_Exception e then run_checks_loop rest (found @ [check_failed (fst check_method) e])
          else Inl e)"

definition run_checks :: "check_method list \<Rightarrow> error + Issue list" where
  "run_checks check_methods = run_checks_loop check_methods []"

subsection \<open>Single-run checkers\<close>

text \<open>
  \<^verbatim>\<open>TrainingRunRulesChecker.check_allowed_params\<close>: the loop over the items of the
  override dictionary, in order.
\<close>

definition closed_allowed_params :: "string list" where
  "closed_allowed_params =
     [''dataset.num_files_train'', ''dataset.num_subfolders_train'', ''dataset.data_folder'',
      ''reader.read_threads'', ''reader.computation_threads'', ''reader.transfer_size'',
      ''reader.odirect'', ''reader.prefetch_size'', ''checkpoint.checkpoint_folder'',
      ''storage.storage_type'', ''storage.storage_root'']"

definition open_allowed_params :: "string list" where
  "open_allowed_params =
     [''framework'', ''dataset.format'', ''dataset.num_samples_per_file'', ''reader.data_loader'']"

fun allowed_params_loop :: "(string \<times> string) list \<Rightarrow> Issue list \<Rightarrow> Issue list" where
  "allowed_params_loop [] found = found"
| "allowed_params_loop (item # rest) found =
     (let param = fst item; val = snd item in
      if startswith param ''workflow'' then allowed_params_loop rest found
      else if param \<in> set closed_allowed_params then
        allowed_params_loop rest
          (found @ [\<lparr>validation = CLOSED,
                     message = ''Closed parameter override allowed: '' @ param @ '' = '' @ val,
                     parameter = Some ''Overrode Parameters'', expected = None,
                     actual = Some (Plain (PStr val)), severity = ''error''\<rparr>])
      else if param \<in> set open_allowed_params then
        allowed_params_loop rest
          (found @ [\<lparr>validation = OPEN,
                     message = ''Open parameter override allowed: '' @ param @ '' = '' @ val,
                     parameter = Some ''Overrode Parameters'', expected = None,
                     actual = Some (Plain (PStr val)), severity = ''error''\<rparr>])
      else
        allowed_params_loop rest
          (found @ [\<lparr>validation = INVALID,
                     message = ''Disallowed parameter override: '' @ param @ '' = '' @ val,
                     parameter = Some ''Overrode Parameters'', expected = Some (Plain (PStr ''None'')),
                     actual = Some (Plain (PStr val)), severity = ''error''\<rparr>]))"

definition check_allowed_params :: "BenchmarkRun \<Rightarrow> error + check_return" where
  "check_allowed_params benchmark_run =
     Inr (RList (allowed_params_loop (override_parameters benchmark_run) []))"

text \<open>
  \<^verbatim>\<open>CheckpointingRunRulesChecker\<close> has the single check method
  \<^verbatim>\<open>check_benchmark_type\<close>, whose body is \<^verbatim>\<open>pass\<close>.
\<close>

definition CheckpointingRunRulesChecker :: "BenchmarkRun \<Rightarrow> check_method list" where
  "CheckpointingRunRulesChecker benchmark_run = [(''check_benchmark_type'', Inr RNone)]"

subsection \<open>Multi-run checkers\<close>

text \<open>
  \<^verbatim>\<open>MultiRunRulesChecker.check_runs_valid\<close>. The set holds the \<^verbatim>\<open>category\<close> attribute
  of every run, which is \<^verbatim>\<open>None\<close> for a run that no verification has resolved yet. The
  list comprehension for \<^verbatim>\<open>actual\<close> reads \<^verbatim>\<open>cat.value\<close> of every member and raises on
  \<^verbatim>\<open>None\<close>; it is evaluated in the three branches that build a finding.
\<close>

definition actual_categories :: "PARAM_VALIDATION option set \<Rightarrow> error + field_value" where
  "actual_categories category_set =
     (if None \<in> category_set then Inl (no_attribute ''NoneType'' ''value'')
      else Inr (ListOfSet (value_upper ` Option.these category_set)))"

definition category_issue :: "PARAM_VALIDATION \<Rightarrow> string \<Rightarrow> field_value \<Rightarrow> Issue" where
  "category_issue v msg act =
     \<lparr>validation = v, message = msg, parameter = Some ''category'',
      expected = Some (Plain (PStr ''OPEN or CLOSED'')), actual = Some act, severity = ''error''\<rparr>"

definition check_runs_valid :: "BenchmarkRun list \<Rightarrow> error + check_return" where
  "check_runs_valid benchmark_runs =
     (let category_set = set (map category benchmark_runs) in
      if Some INVALID \<in> category_set then
        and_then (actual_categories category_set)
          (\<lambda>act. Inr (RIssue (category_issue INVALID ''Invalid runs found.'' act)))
      else if Some OPEN \<in> category_set then
        and_then (actual_categories category_set)
          (\<lambda>act. Inr (RIssue (category_issue OPEN
                                 ''All runs satisfy the OPEN or CLOSED category'' act)))
      else if {Some CLOSED} = category_set then
        and_then (actual_categories category_set)
          (\<lambda>act. Inr (RIssue (category_issue CLOSED ''All runs satisfy the CLOSED category'' act)))
      else Inr RNone)"

text \<open>
  \<^verbatim>\<open>CheckpointSubmissionRulesChecker.check_num_runs\<close>. The loop adds, for every
  checkpointing run, \<^verbatim>\<open>run.parameters.get('checkpoint', {}).get(key, 0)\<close> to the write
  and to the read counter; then one finding per counter and the combined finding.
\<close>

definition checkpoint_param :: "BenchmarkRun \<Rightarrow> string \<Rightarrow> error + pyval" where
  "checkpoint_param run key =
     and_then (py_get (parameters run) ''checkpoint'' (PDict []))
       (\<lambda>section. py_get section key (PInt 0))"

fun count_checkpoints :: "BenchmarkRun list \<Rightarrow> int \<Rightarrow> int \<Rightarrow> error + (int \<times> int)" where
  "count_checkpoints [] num_writes num_reads = Inr (num_writes, num_reads)"
| "count_checkpoints (run # rest) num_writes num_reads =
     (if benchmark_type run = Some checkpointing then
        and_then (checkpoint_param run ''num_checkpoints_write'') (\<lambda>w.
        and_then (add_to_int ''+='' num_writes w) (\<lambda>num_writes'.
        and_then (checkpoint_param run ''num_checkpoints_read'') (\<lambda>r.
        and_then (add_to_int ''+='' num_reads r) (\<lambda>num_reads'.
          count_checkpoints rest num_writes' num_reads'))))
      else count_checkpoints rest num_writes num_reads)"

definition count_issue :: "PARAM_VALIDATION \<Rightarrow> string \<Rightarrow> string \<Rightarrow> int \<Rightarrow> Issue" where
  "count_issue v msg param act =
     \<lparr>validation = v, message = msg, parameter = Some param,
      expected = Some (Plain (PInt 10)), actual = Some (Plain (PInt act)), severity = ''error''\<rparr>"

definition num_runs_issues :: "int \<Rightarrow> int \<Rightarrow> Issue list" where
  "num_runs_issues num_writes num_reads =
     [if \<not> num_reads = 10 then
        count_issue INVALID (''Expected 10 total read operations, but found '' @ str_int num_reads)
          ''checkpoint.num_checkpoints_read'' num_reads
      else
        count_issue CLOSED ''Found expected 10 total read operations''
          ''checkpoint.num_checkpoints_read'' num_reads]
     @
     [if \<not> num_writes = 10 then
        count_issue INVALID (''Expected 10 total write operations, but found '' @ str_int num_writes)
          ''checkpoint.num_checkpoints_write'' num_writes
      else
        count_issue CLOSED ''Found expected 10 total write operations''
          ''checkpoint.num_checkpoints_write'' num_writes]
     @
     (if num_writes = 10 \<and> num_reads = 10 then
        [count_issue CLOSED ''Found expected 10 total read and write operations''
           ''checkpoint.num_checkpoints_read'' 10]
      else [])"

definition checkpoint_check_num_runs :: "BenchmarkRun list \<Rightarrow> error + check_return" where
  "checkpoint_check_num_runs benchmark_runs =
     and_then (count_checkpoints benchmark_runs 0 0)
       (\<lambda>counts. Inr (RList (num_runs_issues (fst counts) (snd counts))))"

text \<open>
  The check methods of the two submission checkers, in the order of \<^verbatim>\<open>dir(self)\<close>,
  which is alphabetical. The body of \<^verbatim>\<open>TrainingSubmissionRulesChecker.check_num_runs\<close>
  is a docstring only.
\<close>

definition CheckpointSubmissionRulesChecker :: "BenchmarkRun list \<Rightarrow> check_method list" where
  "CheckpointSubmissionRulesChecker benchmark_runs =
     [(''check_num_runs'', checkpoint_check_num_runs benchmark_runs),
      (''check_runs_valid'', check_runs_valid benchmark_runs)]"

definition TrainingSubmissionRulesChecker :: "BenchmarkRun list \<Rightarrow> check_method list" where
  "TrainingSubmissionRulesChecker benchmark_runs =
     [(''check_num_runs'', Inr RNone),
      (''check_runs_valid'', check_runs_valid benchmark_runs)]"

section \<open>The verifier\<close>

datatype verifier_mode = single | multi

text \<open>
  The attributes of a \<^verbatim>\<open>BenchmarkVerifier\<close>. \<^verbatim>\<open>rules_checker\<close> is absent (\<open>None\<close>)
  when the constructor found no checker for the benchmark type.
\<close>

record BenchmarkVerifier =
  mode :: verifier_mode
  benchmark_runs :: "BenchmarkRun list"
  rules_checker :: "check_method list option"
  verifier_issues :: "Issue list"

text \<open>
  The constructor, for arguments that are runs. The single-run training checker has nine
  check methods, most of which read the effective parameter documents through Python's
  dynamic conversions; only \<^verbatim>\<open>check_allowed_params\<close> is embedded above, so the
  constructor takes that checker as its first argument, and what is proved of the
  verifier holds whatever the checker's methods return or raise. The set of benchmark
  types is the list of distinct types; in the branch that pops its element all runs have
  the type of the first.
\<close>

definition BenchmarkVerifier_init ::
  "(BenchmarkRun \<Rightarrow> check_method list) \<Rightarrow> BenchmarkRun list \<Rightarrow> error + BenchmarkVerifier" where
  "BenchmarkVerifier_init TrainingRunRulesChecker runs =
     (if length runs = 1 then
        (let benchmark_run = hd runs in
         Inr \<lparr>mode = single, benchmark_runs = runs,
              rules_checker =
                (if benchmark_type benchmark_run = Some training
                 then Some (TrainingRunRulesChecker benchmark_run)
                 else if benchmark_type benchmark_run = Some checkpointing
                 then Some (CheckpointingRunRulesChecker benchmark_run)
                 else None),
              verifier_issues = []\<rparr>)
      else if length runs > 1 then
        (let benchmark_types = remdups (map benchmark_type runs) in
         if length benchmark_types > 1 then
           Inl (ValueError (''Multi-run verification requires all runs are from the same ''
                            @ ''benchmark type. Got types: {benchmark_types}''))
         else
           (let btype = benchmark_type (hd runs) in
            Inr \<lparr>mode = multi, benchmark_runs = runs,
                 rules_checker =
                   (if btype = Some training then Some (TrainingSubmissionRulesChecker runs)
                    else if btype = Some checkpointing
                    then Some (CheckpointSubmissionRulesChecker runs)
                    else None),
                 verifier_issues = []\<rparr>))
      else Inl (ValueError ''At least one benchmark run is required''))"

text \<open>
  The first lines of \<^verbatim>\<open>verify\<close>: the run ids are collected and the status line is
  formatted. In single mode the first id is formatted, whatever it is; in multi mode the
  ids are joined, and \<^verbatim>\<open>str.join\<close> raises on an element that is not a string.
\<close>

fun run_ids :: "BenchmarkRun list \<Rightarrow> error + (string + RunID option) list" where
  "run_ids [] = Inr []"
| "run_ids (br # rest) =
     and_then (run_id br) (\<lambda>i. and_then (run_ids rest) (\<lambda>ids. Inr (i # ids)))"

fun join_ids :: "nat \<Rightarrow> (string + RunID option) list \<Rightarrow> error + string" where
  "join_ids k [] = Inr []"
| "join_ids k (Inl s # rest) =
     and_then (join_ids (k + 1) rest) (\<lambda>t. Inr (if rest = [] then s else s @ '', '' @ t))"
| "join_ids k (Inr rid # rest) =
     Inl (TypeError (''sequence item '' @ str_nat k @ '': expected str instance, ''
                     @ (case rid of None \<Rightarrow> ''NoneType'' | Some r \<Rightarrow> ''RunID'') @ '' found''))"

definition announce :: "BenchmarkVerifier \<Rightarrow> error + unit" where
  "announce v =
     and_then (run_ids (benchmark_runs v)) (\<lambda>ids.
       case mode v of
         single \<Rightarrow> (case ids of [] \<Rightarrow> Inl (IndexError ''list index out of range'') | i # rest \<Rightarrow> Inr ())
       | multi \<Rightarrow> and_then (join_ids 0 ids) (\<lambda>line. Inr ()))"

text \<open>
  The counting loop of \<^verbatim>\<open>verify\<close>, with the counters (num_invalid, num_open,
  num_closed). Its last branch, which raises on a validation outside the enumeration, has
  no counterpart: the type of the field has the three members only.
\<close>

fun count_issues :: "Issue list \<Rightarrow> nat \<times> nat \<times> nat \<Rightarrow> nat \<times> nat \<times> nat" where
  "count_issues [] counters = counters"
| "count_issues (issue # rest) (num_invalid, num_open, num_closed) =
     (case validation issue of
        INVALID \<Rightarrow> count_issues rest (num_invalid + 1, num_open, num_closed)
      | CLOSED \<Rightarrow> count_issues rest (num_invalid, num_open, num_closed + 1)
      | OPEN \<Rightarrow> count_issues rest (num_invalid, num_open + 1, num_closed))"

text \<open>
  An assignment to an attribute of \<^verbatim>\<open>self.benchmark_runs[0]\<close>, made in single mode only.
\<close>

definition on_first_run :: "(BenchmarkRun \<Rightarrow> BenchmarkRun) \<Rightarrow> BenchmarkVerifier \<Rightarrow> BenchmarkVerifier" where
  "on_first_run f v =
     (if mode v = single then
        v\<lparr>benchmark_runs := (case benchmark_runs v of [] \<Rightarrow> [] | r # rest \<Rightarrow> f r # rest)\<rparr>
      else v)"

text \<open>
  \<^verbatim>\<open>BenchmarkVerifier.verify\<close> returns the category and leaves the verifier, and in
  single mode its run, updated. Reading \<^verbatim>\<open>self.rules_checker\<close> raises when the
  constructor set none.
\<close>

definition verify :: "BenchmarkVerifier \<Rightarrow> error + (PARAM_VALIDATION \<times> BenchmarkVerifier)" where
  "verify v =
     and_then (announce v) (\<lambda>u.
     and_then (case rules_checker v of
                 None \<Rightarrow> Inl (no_attribute ''BenchmarkVerifier'' ''rules_checker'')
               | Some checker \<Rightarrow> run_checks checker) (\<lambda>found.
       (let counters = count_issues found (0, 0, 0);
            num_invalid = fst counters;
            num_open = fst (snd counters);
            v' = on_first_run (\<lambda>r. r\<lparr>issues := found\<rparr>) (v\<lparr>verifier_issues := found\<rparr>)
        in
        if num_invalid > 0 then
          Inr (INVALID, on_first_run (\<lambda>r. r\<lparr>category := Some INVALID\<rparr>) v')
        else if num_open > 0 then
          Inr (OPEN, on_first_run (\<lambda>r. r\<lparr>category := Some OPEN\<rparr>) v')
        else
          Inr (CLOSED, on_first_run (\<lambda>r. r\<lparr>category := Some CLOSED\<rparr>) v'))))"

section \<open>The checkpoint counts, in the specification's words\<close>

text \<open>
  The specification sums \<^verbatim>\<open>checkpoint.num_checkpoints_read\<close> and
  \<^verbatim>\<open>checkpoint.num_checkpoints_write\<close> over the checkpointing runs of a submission, a
  missing parameter counting as 0. \<open>spec_checkpoint_count\<close> is what a run declares for
  one of the two parameters: 0 when the parameters have no \<^verbatim>\<open>checkpoint\<close> section or
  the section has no such key, the integer when there is one, and nothing when the
  documents are not of this shape. \<open>spec_total_count\<close> is the sum over the checkpointing
  runs.
\<close>

definition spec_checkpoint_count :: "BenchmarkRun \<Rightarrow> string \<Rightarrow> int option" where
  "spec_checkpoint_count run key =
     (case parameters run of
        PDict d \<Rightarrow>
          (case map_of d ''checkpoint'' of
             None \<Rightarrow> Some 0
           | Some (PDict section) \<Rightarrow>
               (case map_of section key of
                  None \<Rightarrow> Some 0
                | Some (PInt n) \<Rightarrow> Some n
                | Some other \<Rightarrow> None)
           | Some other \<Rightarrow> None)
      | other \<Rightarrow> None)"

definition spec_total_count :: "BenchmarkRun list \<Rightarrow> string \<Rightarrow> int" where
  "spec_total_count runs key =
     sum_list (map (\<lambda>run. case spec_checkpoint_count run key of None \<Rightarrow> 0 | Some n \<Rightarrow> n)
                 (filter (\<lambda>run. benchmark_type run = Some checkpointing) runs))"

section \<open>Properties of the sizing algorithm\<close>

lemma sizing_from_cluster:
  assumes "dataset_params ''num_samples_per_file'' = Some S"
    and "dataset_params ''record_length_bytes'' = Some R"
    and "reader_params ''batch_size'' = Some B"
    and "S * R \<noteq> 0"
    and "megabytes_finite
           (max ((5 * total_memory_bytes ci) div (S * R)) ((500 * P * B) div S) * (S * R))"
  shows "calculate_training_data_size None (Some ci) dataset_params reader_params (Some P) =
           Inr (max ((5 * total_memory_bytes ci) div (S * R)) ((500 * P * B) div S), 0,
                max ((5 * total_memory_bytes ci) div (S * R)) ((500 * P * B) div S) * (S * R))"
  using assms
  by (simp add: calculate_training_data_size_def memory_source_def getitem_def
      min_num_files_by_bytes_def min_num_files_by_samples_def floordiv_def Let_def)

text \<open>
  Claim C2. With total memory \<open>M\<close> in the cluster information, positive
  \<open>num_samples_per_file = S\<close> and \<open>record_length_bytes = R\<close>, \<open>batch_size = B\<close> and
  process count \<open>P\<close>, and a resulting disk size whose megabyte figure is a finite
  floating-point number (a size below \<open>2^1034 - 2^980\<close> bytes), the function returns the
  required file count \<open>max (5 * M div (S * R)) (500 * P * B div S)\<close>, the subfolder count
  \<open>0\<close>, and the disk size \<open>required file count * S * R\<close>.
\<close>

theorem calculate_training_data_size_formula:
  assumes "0 < S" and "0 < R"
    and "total_memory_bytes ci = M"
    and "dataset_params ''num_samples_per_file'' = Some S"
    and "dataset_params ''record_length_bytes'' = Some R"
    and "reader_params ''batch_size'' = Some B"
    and "megabytes_finite (max ((5 * M) div (S * R)) ((500 * P * B) div S) * S * R)"
  shows "calculate_training_data_size None (Some ci) dataset_params reader_params (Some P) =
           Inr (max ((5 * M) div (S * R)) ((500 * P * B) div S), 0,
                max ((5 * M) div (S * R)) ((500 * P * B) div S) * S * R)"
proof -
  from assms(1,2) have nz: "S * R \<noteq> 0" by simp
  from assms(3,7) have fin: "megabytes_finite
      (max ((5 * total_memory_bytes ci) div (S * R)) ((500 * P * B) div S) * (S * R))"
    by (simp add: mult.assoc)
  show ?thesis
    using sizing_from_cluster [of dataset_params S R reader_params B ci P] assms(3-6) nz fin
    by (simp add: mult.assoc)
qed

theorem calculate_training_data_size_formula_witness:
  "calculate_training_data_size None
       (Some \<lparr>total_memory_bytes = 1000, total_cores = 4\<rparr>)
       [''num_samples_per_file'' \<mapsto> 10, ''record_length_bytes'' \<mapsto> 20]
       [''batch_size'' \<mapsto> 3] (Some 2) =
     Inr (max ((5 * 1000) div (10 * 20)) ((500 * 2 * 3) div 10), 0,
          max ((5 * 1000) div (10 * 20)) ((500 * 2 * 3) div 10) * 10 * 20)"
  using calculate_training_data_size_formula
    [of 10 20 "\<lparr>total_memory_bytes = 1000, total_cores = 4\<rparr>" 1000
        "[''num_samples_per_file'' \<mapsto> 10, ''record_length_bytes'' \<mapsto> 20]"
        "[''batch_size'' \<mapsto> 3]" 3 2]
  by (simp add: megabytes_finite_def)

text \<open>
  Claim C8, as amended. For 1 TiB of total memory, 1000 samples per file, records of
  100000 bytes, batch size 32 and 8 processes, the size-driven minimum is
  \<open>5 * 2^40 div (1000 * 100000) = 54975\<close> files, the step-driven minimum is
  \<open>500 * 8 * 32 div 1000 = 128\<close> files, and the function returns the required file
  count 54975 (with no subfolders and 54975 files of 100000000 bytes on disk).
\<close>

theorem sizing_scenario_one_tebibyte:
  "min_num_files_by_bytes (2 ^ 40) (1000 * 100000) = Inr 54975 \<and>
   min_num_files_by_samples 8 32 1000 = Inr 128 \<and>
   calculate_training_data_size None
       (Some \<lparr>total_memory_bytes = 2 ^ 40, total_cores = 0\<rparr>)
       [''num_samples_per_file'' \<mapsto> 1000, ''record_length_bytes'' \<mapsto> 100000]
       [''batch_size'' \<mapsto> 32] (Some 8) =
     Inr (54975, 0, 5497500000000)"
  by (simp add: calculate_training_data_size_def memory_source_def getitem_def
      min_num_files_by_bytes_def min_num_files_by_samples_def floordiv_def Let_def
      megabytes_finite_def)

text \<open>
  The scenario as the specification words it (58982 files by size, and 58982 returned)
  does not hold of the function.
\<close>

theorem sizing_scenario_one_tebibyte_counterexample:
  "min_num_files_by_bytes (2 ^ 40) (1000 * 100000) \<noteq> Inr 58982 \<and>
   map_sum id fst (calculate_training_data_size None
       (Some \<lparr>total_memory_bytes = 2 ^ 40, total_cores = 0\<rparr>)
       [''num_samples_per_file'' \<mapsto> 1000, ''record_length_bytes'' \<mapsto> 100000]
       [''batch_size'' \<mapsto> 32] (Some 8)) \<noteq> Inr 58982"
  by (simp add: calculate_training_data_size_def memory_source_def getitem_def
      min_num_files_by_bytes_def min_num_files_by_samples_def floordiv_def Let_def
      megabytes_finite_def)

text \<open>
  Claim C9. The required file count is monotonic on valid inputs (positive samples per
  file and record length, non-negative process count and batch size, and a disk size for
  the larger input whose megabyte figure is a finite floating-point number): raising the
  total cluster memory, the process count or the batch size, each alone or together, with
  the dataset parameters fixed, never lowers the required file count that is returned.
\<close>

theorem calculate_training_data_size_monotonic:
  assumes "0 < S" and "0 < R"
    and "dataset_params ''num_samples_per_file'' = Some S"
    and "dataset_params ''record_length_bytes'' = Some R"
    and "reader_params ''batch_size'' = Some B"
    and "reader_params' ''batch_size'' = Some B'"
    and "total_memory_bytes ci \<le> total_memory_bytes ci'"
    and "0 \<le> P" and "P \<le> P'"
    and "0 \<le> B" and "B \<le> B'"
    and "megabytes_finite
           (max ((5 * total_memory_bytes ci') div (S * R)) ((500 * P' * B') div S) * (S * R))"
  shows "\<exists>n s d n' s' d'.
           calculate_training_data_size None (Some ci) dataset_params reader_params (Some P) =
             Inr (n, s, d) \<and>
           calculate_training_data_size None (Some ci') dataset_params reader_params' (Some P') =
             Inr (n', s', d') \<and>
           n \<le> n'"
proof -
  let ?lo = "max ((5 * total_memory_bytes ci) div (S * R)) ((500 * P * B) div S)"
  let ?hi = "max ((5 * total_memory_bytes ci') div (S * R)) ((500 * P' * B') div S)"
  from assms(1,2) have pos: "0 < S * R" by simp
  from assms(1,2) have nz: "S * R \<noteq> 0" by simp
  have by_bytes: "(5 * total_memory_bytes ci) div (S * R) \<le> (5 * total_memory_bytes ci') div (S * R)"
    using assms(7) pos by (intro zdiv_mono1) simp_all
  have "P * B \<le> P' * B'"
    using assms(8-11) by (intro mult_mono) simp_all
  then have "500 * P * B \<le> 500 * P' * B'" by simp
  then have by_samples: "(500 * P * B) div S \<le> (500 * P' * B') div S"
    using assms(1) by (intro zdiv_mono1)
  have le: "?lo \<le> ?hi"
    using by_bytes by_samples by (rule max.mono)
  have "0 \<le> 500 * P * B" using assms(8,10) by simp
  then have "0 \<le> (500 * P * B) div S"
    using assms(1) by (simp add: pos_imp_zdiv_nonneg_iff)
  then have lo0: "0 \<le> ?lo" by simp
  have lo_total: "0 \<le> ?lo * (S * R)" using lo0 pos by simp
  have le_total: "?lo * (S * R) \<le> ?hi * (S * R)"
    using le pos by (intro mult_right_mono) simp_all
  have fin_lo: "megabytes_finite (?lo * (S * R))"
    using assms(12) lo_total le_total unfolding megabytes_finite_def by linarith
  have lo: "calculate_training_data_size None (Some ci) dataset_params reader_params (Some P) =
      Inr (?lo, 0, ?lo * (S * R))"
    using sizing_from_cluster [of dataset_params S R reader_params B ci P] assms(3-5) nz fin_lo
    by simp
  have hi: "calculate_training_data_size None (Some ci') dataset_params reader_params' (Some P') =
      Inr (?hi, 0, ?hi * (S * R))"
    using sizing_from_cluster [of dataset_params S R reader_params' B' ci' P'] assms(3,4,6,12) nz
    by simp
  show ?thesis
    unfolding lo hi using le by simp
qed

theorem calculate_training_data_size_monotonic_witness:
  "\<exists>n s d n' s' d'.
     calculate_training_data_size None
         (Some \<lparr>total_memory_bytes = 1000, total_cores = 4\<rparr>)
         [''num_samples_per_file'' \<mapsto> 10, ''record_length_bytes'' \<mapsto> 20]
         [''batch_size'' \<mapsto> 3] (Some 2) =
       Inr (n, s, d) \<and>
     calculate_training_data_size None
         (Some \<lparr>total_memory_bytes = 9000, total_cores = 4\<rparr>)
         [''num_samples_per_file'' \<mapsto> 10, ''record_length_bytes'' \<mapsto> 20]
         [''batch_size'' \<mapsto> 4] (Some 5) =
       Inr (n', s', d') \<and>
     n \<le> n'"
  using calculate_training_data_size_monotonic
    [of 10 20 "[''num_samples_per_file'' \<mapsto> 10, ''record_length_bytes'' \<mapsto> 20]"
        "[''batch_size'' \<mapsto> 3]" 3 "[''batch_size'' \<mapsto> 4]" 4
        "\<lparr>total_memory_bytes = 1000, total_cores = 4\<rparr>"
        "\<lparr>total_memory_bytes = 9000, total_cores = 4\<rparr>" 2 5]
  by (simp add: megabytes_finite_def)

section \<open>Properties of check execution and of the verifier\<close>





lemma count_issues_counts:
  "count_issues found (a, b, c) =
     (a + length (filter (\<lambda>f. validation f = INVALID) found),
      b + length (filter (\<lambda>f. validation f = OPEN) found),
      c + length (filter (\<lambda>f. validation f = CLOSED) found))"
  by (induction found arbitrary: a b c) (auto split: PARAM_VALIDATION.splits)

text \<open>
  Claim C1. When the status line can be written, the verifier has a checker and running
  it produces the finding list \<open>found\<close>, \<^verbatim>\<open>verify\<close> returns one category, by
  precedence: INVALID if \<open>found\<close> has an INVALID finding; otherwise OPEN if it has an
  OPEN finding; otherwise, the empty list included, CLOSED. The verifier keeps \<open>found\<close>.
\<close>

theorem verify_resolves_by_precedence:
  assumes "announce v = Inr ()"
    and "rules_checker v = Some checker"
    and "run_checks checker = Inr found"
  shows "\<exists>v'. verify v =
                Inr (if (\<exists>f \<in> set found. validation f = INVALID) then INVALID
                     else if (\<exists>f \<in> set found. validation f = OPEN) then OPEN
                     else CLOSED, v')
              \<and> verifier_issues v' = found"
proof -
  have inv: "(0 < fst (count_issues found (0, 0, 0))) = (\<exists>f \<in> set found. validation f = INVALID)"
    by (auto simp: count_issues_counts filter_empty_conv)
  have opn: "(0 < fst (snd (count_issues found (0, 0, 0)))) = (\<exists>f \<in> set found. validation f = OPEN)"
    by (auto simp: count_issues_counts filter_empty_conv)
  show ?thesis
    using assms
    by (simp add: verify_def and_then_def Let_def inv opn on_first_run_def)
qed

theorem verify_resolves_by_precedence_witness:
  "announce \<lparr>mode = single,
             benchmark_runs = [(initial_run None None)\<lparr>override_parameters :=
                                 [(''dataset.num_files_train'', ''5''), (''framework'', ''x'')]\<rparr>],
             rules_checker = Some [(''check_allowed_params'',
                check_allowed_params ((initial_run None None)\<lparr>override_parameters :=
                                 [(''dataset.num_files_train'', ''5''), (''framework'', ''x'')]\<rparr>))],
             verifier_issues = []\<rparr> = Inr () \<and>
   (\<exists>v'. verify \<lparr>mode = single,
             benchmark_runs = [(initial_run None None)\<lparr>override_parameters :=
                                 [(''dataset.num_files_train'', ''5''), (''framework'', ''x'')]\<rparr>],
             rules_checker = Some [(''check_allowed_params'',
                check_allowed_params ((initial_run None None)\<lparr>override_parameters :=
                                 [(''dataset.num_files_train'', ''5''), (''framework'', ''x'')]\<rparr>))],
             verifier_issues = []\<rparr> = Inr (OPEN, v') \<and>
         map validation (verifier_issues v') = [CLOSED, OPEN])"
  using verify_resolves_by_precedence
    [of "\<lparr>mode = single,
             benchmark_runs = [(initial_run None None)\<lparr>override_parameters :=
                                 [(''dataset.num_files_train'', ''5''), (''framework'', ''x'')]\<rparr>],
             rules_checker = Some [(''check_allowed_params'',
                check_allowed_params ((initial_run None None)\<lparr>override_parameters :=
                                 [(''dataset.num_files_train'', ''5''), (''framework'', ''x'')]\<rparr>))],
             verifier_issues = []\<rparr>"
        "[(''check_allowed_params'',
                check_allowed_params ((initial_run None None)\<lparr>override_parameters :=
                                 [(''dataset.num_files_train'', ''5''), (''framework'', ''x'')]\<rparr>))]"
        "[\<lparr>validation = CLOSED,
           message = ''Closed parameter override allowed: dataset.num_files_train = 5'',
           parameter = Some ''Overrode Parameters'', expected = None,
           actual = Some (Plain (PStr ''5'')), severity = ''error''\<rparr>,
          \<lparr>validation = OPEN,
           message = ''Open parameter override allowed: framework = x'',
           parameter = Some ''Overrode Parameters'', expected = None,
           actual = Some (Plain (PStr ''x'')), severity = ''error''\<rparr>]"]
  by (auto simp: announce_def run_id_def initial_run_def and_then_def run_checks_def
      check_allowed_params_def startswith_def closed_allowed_params_def open_allowed_params_def Let_def)

section \<open>Properties of the checks\<close>

lemma allowed_params_loop_map:
  "allowed_params_loop items found =
     found @ map (\<lambda>(param, val).
         \<lparr>validation = (if param \<in> set closed_allowed_params then CLOSED
                        else if param \<in> set open_allowed_params then OPEN
                        else INVALID),
          message = (if param \<in> set closed_allowed_params then ''Closed parameter override allowed: ''
                     else if param \<in> set open_allowed_params then ''Open parameter override allowed: ''
                     else ''Disallowed parameter override: '') @ param @ '' = '' @ val,
          parameter = Some ''Overrode Parameters'',
          expected = (if param \<in> set closed_allowed_params \<or> param \<in> set open_allowed_params
                      then None else Some (Plain (PStr ''None''))),
          actual = Some (Plain (PStr val)),
          severity = ''error''\<rparr>)
       (filter (\<lambda>(param, val). \<not> startswith param ''workflow'') items)"
  by (induction items arbitrary: found) (auto simp: Let_def)

text \<open>
  Claim C4. The override allow-list check returns one finding for every override whose key
  does not start with \<^verbatim>\<open>workflow\<close>, in the order of the overrides, and none for the
  others. The finding of a key in the CLOSED-allowed list is CLOSED, that of a key in the
  OPEN-allowed list is OPEN, and that of any other key is INVALID, with the key in its
  message and \<^verbatim>\<open>expected = "None"\<close>.
\<close>

theorem check_allowed_params_classifies:
  "check_allowed_params benchmark_run =
     Inr (RList (map (\<lambda>(param, val).
         \<lparr>validation = (if param \<in> set closed_allowed_params then CLOSED
                        else if param \<in> set open_allowed_params then OPEN
                        else INVALID),
          message = (if param \<in> set closed_allowed_params then ''Closed parameter override allowed: ''
                     else if param \<in> set open_allowed_params then ''Open parameter override allowed: ''
                     else ''Disallowed parameter override: '') @ param @ '' = '' @ val,
          parameter = Some ''Overrode Parameters'',
          expected = (if param \<in> set closed_allowed_params \<or> param \<in> set open_allowed_params
                      then None else Some (Plain (PStr ''None''))),
          actual = Some (Plain (PStr val)),
          severity = ''error''\<rparr>)
       (filter (\<lambda>(param, val). \<not> startswith param ''workflow'')
          (override_parameters benchmark_run))))"
  by (simp add: check_allowed_params_def allowed_params_loop_map)

lemma checkpoint_param_count:
  assumes "spec_checkpoint_count run key = Some n"
  shows "and_then (checkpoint_param run key) (add_to_int opr acc) = Inr (acc + n)"
  using assms
  by (auto simp: spec_checkpoint_count_def checkpoint_param_def and_then_def
      split: pyval.splits option.splits)

lemma count_checkpoints_total:
  assumes "\<forall>run \<in> set runs. benchmark_type run = Some checkpointing \<longrightarrow>
             spec_checkpoint_count run ''num_checkpoints_write'' \<noteq> None \<and>
             spec_checkpoint_count run ''num_checkpoints_read'' \<noteq> None"
  shows "count_checkpoints runs w r =
           Inr (w + spec_total_count runs ''num_checkpoints_write'',
                r + spec_total_count runs ''num_checkpoints_read'')"
  using assms
proof (induction runs arbitrary: w r)
  case Nil
  then show ?case by (simp add: spec_total_count_def)
next
  case (Cons run runs)
  show ?case
  proof (cases "benchmark_type run = Some checkpointing")
    case False
    with Cons show ?thesis by (simp add: spec_total_count_def)
  next
    case True
    with Cons.prems obtain a b where
      a: "spec_checkpoint_count run ''num_checkpoints_write'' = Some a" and
      b: "spec_checkpoint_count run ''num_checkpoints_read'' = Some b"
      by auto
    have wa: "and_then (checkpoint_param run ''num_checkpoints_write'') (add_to_int ''+='' w) = Inr (w + a)"
      by (rule checkpoint_param_count [OF a])
    have rb: "and_then (checkpoint_param run ''num_checkpoints_read'') (add_to_int ''+='' r) = Inr (r + b)"
      by (rule checkpoint_param_count [OF b])
    have step: "count_checkpoints (run # runs) w r = count_checkpoints runs (w + a) (r + b)"
      using True wa rb
      by (auto simp: and_then_def split: sum.splits)
    from Cons.prems have rest: "\<forall>run \<in> set runs. benchmark_type run = Some checkpointing \<longrightarrow>
             spec_checkpoint_count run ''num_checkpoints_write'' \<noteq> None \<and>
             spec_checkpoint_count run ''num_checkpoints_read'' \<noteq> None" by simp
    show ?thesis
      unfolding step Cons.IH [OF rest]
      using True a b by (simp add: spec_total_count_def)
  qed
qed


text \<open>
  Claim C5. For a submission whose checkpointing runs all declare their two checkpoint
  counts (as integers, or not at all), the run-count check returns: a finding for the
  reads, CLOSED if the total of \<^verbatim>\<open>num_checkpoints_read\<close> over the checkpointing runs
  is 10 and INVALID otherwise, with the total as \<^verbatim>\<open>actual\<close>; the same for the writes;
  and a third, CLOSED finding exactly when both totals are 10. A missing parameter counts
  as 0.
\<close>

theorem checkpoint_check_num_runs_totals:
  assumes "\<forall>run \<in> set runs. benchmark_type run = Some checkpointing \<longrightarrow>
             spec_checkpoint_count run ''num_checkpoints_write'' \<noteq> None \<and>
             spec_checkpoint_count run ''num_checkpoints_read'' \<noteq> None"
  shows "checkpoint_check_num_runs runs =
     (let num_reads = spec_total_count runs ''num_checkpoints_read'';
          num_writes = spec_total_count runs ''num_checkpoints_write''
      in Inr (RList
        ([\<lparr>validation = (if num_reads = 10 then CLOSED else INVALID),
           message = (if num_reads = 10 then ''Found expected 10 total read operations''
                      else ''Expected 10 total read operations, but found '' @ str_int num_reads),
           parameter = Some ''checkpoint.num_checkpoints_read'',
           expected = Some (Plain (PInt 10)), actual = Some (Plain (PInt num_reads)), severity = ''error''\<rparr>,
          \<lparr>validation = (if num_writes = 10 then CLOSED else INVALID),
           message = (if num_writes = 10 then ''Found expected 10 total write operations''
                      else ''Expected 10 total write operations, but found '' @ str_int num_writes),
           parameter = Some ''checkpoint.num_checkpoints_write'',
           expected = Some (Plain (PInt 10)), actual = Some (Plain (PInt num_writes)), severity = ''error''\<rparr>]
         @ (if num_writes = 10 \<and> num_reads = 10
            then [\<lparr>validation = CLOSED,
                   message = ''Found expected 10 total read and write operations'',
                   parameter = Some ''checkpoint.num_checkpoints_read'',
                   expected = Some (Plain (PInt 10)), actual = Some (Plain (PInt 10)), severity = ''error''\<rparr>]
            else []))))"
  unfolding checkpoint_check_num_runs_def count_checkpoints_total [OF assms]
  by (simp add: and_then_def num_runs_issues_def count_issue_def Let_def)

theorem checkpoint_check_num_runs_totals_witness:
  "checkpoint_check_num_runs
     [(initial_run None None)
        \<lparr>benchmark_type := Some checkpointing,
         parameters := PDict [(''checkpoint'', PDict [(''num_checkpoints_write'', PInt 10),
                                                      (''num_checkpoints_read'', PInt 0)])]\<rparr>,
      (initial_run None None)
        \<lparr>benchmark_type := Some training,
         parameters := PDict [(''checkpoint'', PDict [(''num_checkpoints_write'', PInt 3)])]\<rparr>,
      (initial_run None None)
        \<lparr>benchmark_type := Some checkpointing,
         parameters := PDict [(''checkpoint'', PDict [(''num_checkpoints_read'', PInt 10)])]\<rparr>] =
   Inr (RList
     [\<lparr>validation = CLOSED, message = ''Found expected 10 total read operations'',
       parameter = Some ''checkpoint.num_checkpoints_read'',
       expected = Some (Plain (PInt 10)), actual = Some (Plain (PInt 10)), severity = ''error''\<rparr>,
      \<lparr>validation = CLOSED, message = ''Found expected 10 total write operations'',
       parameter = Some ''checkpoint.num_checkpoints_write'',
       expected = Some (Plain (PInt 10)), actual = Some (Plain (PInt 10)), severity = ''error''\<rparr>,
      \<lparr>validation = CLOSED, message = ''Found expected 10 total read and write operations'',
       parameter = Some ''checkpoint.num_checkpoints_read'',
       expected = Some (Plain (PInt 10)), actual = Some (Plain (PInt 10)), severity = ''error''\<rparr>])"
  using checkpoint_check_num_runs_totals
    [of "[(initial_run None None)
            \<lparr>benchmark_type := Some checkpointing,
             parameters := PDict [(''checkpoint'', PDict [(''num_checkpoints_write'', PInt 10),
                                                          (''num_checkpoints_read'', PInt 0)])]\<rparr>,
          (initial_run None None)
            \<lparr>benchmark_type := Some training,
             parameters := PDict [(''checkpoint'', PDict [(''num_checkpoints_write'', PInt 3)])]\<rparr>,
          (initial_run None None)
            \<lparr>benchmark_type := Some checkpointing,
             parameters := PDict [(''checkpoint'', PDict [(''num_checkpoints_read'', PInt 10)])]\<rparr>]"]
  by (simp add: spec_checkpoint_count_def spec_total_count_def initial_run_def)

text \<open>
  Claim C7, as amended. For a submission with at least one run in which every run has a
  resolved category, the category-consistency check returns exactly one finding: INVALID
  if some run is INVALID; otherwise OPEN if some run is OPEN; otherwise, all runs being
  CLOSED, CLOSED. When no run is INVALID or OPEN and some run has no resolved category (or
  there is no run), the check returns no finding.
\<close>

theorem check_runs_valid_resolved:
  "(runs \<noteq> [] \<and> (\<forall>r \<in> set runs. category r \<noteq> None) \<longrightarrow>
      (\<exists>f. check_runs_valid runs = Inr (RIssue f) \<and>
           validation f =
             (if \<exists>r \<in> set runs. category r = Some INVALID then INVALID
              else if \<exists>r \<in> set runs. category r = Some OPEN then OPEN
              else CLOSED))) \<and>
   ((\<forall>r \<in> set runs. category r \<noteq> Some INVALID \<and> category r \<noteq> Some OPEN) \<and>
    (runs = [] \<or> (\<exists>r \<in> set runs. category r = None)) \<longrightarrow>
      check_runs_valid runs = Inr RNone)"
proof (intro conjI impI)
  assume a: "runs \<noteq> [] \<and> (\<forall>r \<in> set runs. category r \<noteq> None)"
  let ?C = "set (map category runs)"
  from a have noNone: "None \<notin> ?C" by auto
  then have act: "actual_categories ?C = Inr (ListOfSet (value_upper ` Option.these ?C))"
    by (simp add: actual_categories_def)
  have inv: "(Some INVALID \<in> ?C) = (\<exists>r \<in> set runs. category r = Some INVALID)" by force
  have opn: "(Some OPEN \<in> ?C) = (\<exists>r \<in> set runs. category r = Some OPEN)" by force
  have closed: "{Some CLOSED} = ?C"
    if "\<not> (\<exists>r \<in> set runs. category r = Some INVALID)"
      and "\<not> (\<exists>r \<in> set runs. category r = Some OPEN)"
  proof -
    have "category r = Some CLOSED" if "r \<in> set runs" for r
    proof -
      from a that obtain c where c: "category r = Some c" by auto
      with that \<open>\<not> (\<exists>r \<in> set runs. category r = Some INVALID)\<close>
        \<open>\<not> (\<exists>r \<in> set runs. category r = Some OPEN)\<close>
      show ?thesis by (cases c) auto
    qed
    moreover from a obtain r0 where "r0 \<in> set runs" by (cases runs) auto
    ultimately show ?thesis by auto
  qed
  show "\<exists>f. check_runs_valid runs = Inr (RIssue f) \<and>
           validation f =
             (if \<exists>r \<in> set runs. category r = Some INVALID then INVALID
              else if \<exists>r \<in> set runs. category r = Some OPEN then OPEN
              else CLOSED)"
    unfolding check_runs_valid_def Let_def act inv opn
    using closed by (simp add: and_then_def category_issue_def)
next
  assume b: "(\<forall>r \<in> set runs. category r \<noteq> Some INVALID \<and> category r \<noteq> Some OPEN) \<and>
    (runs = [] \<or> (\<exists>r \<in> set runs. category r = None))"
  let ?C = "set (map category runs)"
  from b have "Some INVALID \<notin> ?C" "Some OPEN \<notin> ?C" by auto
  moreover have "{Some CLOSED} \<noteq> ?C"
  proof
    assume eq: "{Some CLOSED} = ?C"
    from b consider "runs = []" | r where "r \<in> set runs" "category r = None" by auto
    then show False
    proof cases
      case 1
      with eq show False by simp
    next
      case 2
      then have "None \<in> ?C" by force
      with eq show False by auto
    qed
  qed
  ultimately show "check_runs_valid runs = Inr RNone"
    by (simp add: check_runs_valid_def Let_def)
qed

theorem check_runs_valid_resolved_witness:
  "(\<exists>f. check_runs_valid
           [(initial_run None None)\<lparr>category := Some CLOSED\<rparr>,
            (initial_run None None)\<lparr>category := Some OPEN\<rparr>] = Inr (RIssue f) \<and>
        validation f = OPEN) \<and>
   check_runs_valid
     [(initial_run None None)\<lparr>category := Some CLOSED\<rparr>, initial_run None None] = Inr RNone"
  using check_runs_valid_resolved
      [of "[(initial_run None None)\<lparr>category := Some CLOSED\<rparr>,
            (initial_run None None)\<lparr>category := Some OPEN\<rparr>]"]
    check_runs_valid_resolved
      [of "[(initial_run None None)\<lparr>category := Some CLOSED\<rparr>, initial_run None None]"]
  by (simp add: initial_run_def)

text \<open>
  The claim as the specification words it, one finding for every multi-run submission,
  fails on runs that no single-run verification has resolved: a run comes out of the
  constructor with no category, and for two such runs the check returns \<^verbatim>\<open>None\<close>.
\<close>

theorem check_runs_valid_counterexample:
  "BenchmarkRun_init (Some Logger) None
     (Some \<lparr>BENCHMARK_TYPE = training, args_model = Some ''unet3d'',
            args_command = Some ''run_benchmark'', args_num_processes = PInt 8,
            inst_run_datetime = ''20250101_120000'', combined_params = None,
            args_vars = PDict [], params_dict = [], cluster_information = None\<rparr>) =
   Inr \<lparr>benchmark_type = Some training, model = Some ''unet3d'', accelerator = None,
        command = Some ''run_benchmark'', num_processes = PInt 8, parameters = PDict [],
        override_parameters = [], system_info = None, metrics = PDict [],
        run_id_attr = Some \<lparr>program = ''training'', rid_command = Some ''run_benchmark'',
                            rid_model = Some ''unet3d'',
                            rid_run_datetime = PStr ''20250101_120000''\<rparr>,
        category = None, issues = [], run_datetime = PStr ''20250101_120000'',
        benchmark_result = None,
        benchmark_instance =
          Some \<lparr>BENCHMARK_TYPE = training, args_model = Some ''unet3d'',
                 args_command = Some ''run_benchmark'', args_num_processes = PInt 8,
                 inst_run_datetime = ''20250101_120000'', combined_params = None,
                 args_vars = PDict [], params_dict = [], cluster_information = None\<rparr>,
        post_execution = False\<rparr> \<and>
   check_runs_valid
     [\<lparr>benchmark_type = Some training, model = Some ''unet3d'', accelerator = None,
       command = Some ''run_benchmark'', num_processes = PInt 8, parameters = PDict [],
       override_parameters = [], system_info = None, metrics = PDict [],
       run_id_attr = Some \<lparr>program = ''training'', rid_command = Some ''run_benchmark'',
                           rid_model = Some ''unet3d'',
                           rid_run_datetime = PStr ''20250101_120000''\<rparr>,
       category = None, issues = [], run_datetime = PStr ''20250101_120000'',
       benchmark_result = None,
       benchmark_instance =
         Some \<lparr>BENCHMARK_TYPE = training, args_model = Some ''unet3d'',
                args_command = Some ''run_benchmark'', args_num_processes = PInt 8,
                inst_run_datetime = ''20250101_120000'', combined_params = None,
                args_vars = PDict [], params_dict = [], cluster_information = None\<rparr>,
       post_execution = False\<rparr>,
      \<lparr>benchmark_type = Some training, model = Some ''unet3d'', accelerator = None,
       command = Some ''run_benchmark'', num_processes = PInt 8, parameters = PDict [],
       override_parameters = [], system_info = None, metrics = PDict [],
       run_id_attr = Some \<lparr>program = ''training'', rid_command = Some ''run_benchmark'',
                           rid_model = Some ''unet3d'',
                           rid_run_datetime = PStr ''20250101_120000''\<rparr>,
       category = None, issues = [], run_datetime = PStr ''20250101_120000'',
       benchmark_result = None,
       benchmark_instance =
         Some \<lparr>BENCHMARK_TYPE = training, args_model = Some ''unet3d'',
                args_command = Some ''run_benchmark'', args_num_processes = PInt 8,
                inst_run_datetime = ''20250101_120000'', combined_params = None,
                args_vars = PDict [], params_dict = [], cluster_information = None\<rparr>,
       post_execution = False\<rparr>] = Inr RNone"
  by (simp add: BenchmarkRun_init_def initial_run_def process_benchmark_instance_def
      and_then_def log_call_def check_runs_valid_def Let_def)

section \<open>Properties of run construction and of single-run verification\<close>

text \<open>
  Claim C6. With a logger given, constructing a run from both a result and a live
  benchmark instance fails with a \<^verbatim>\<open>ValueError\<close>, and constructing it from neither fails
  with a \<^verbatim>\<open>ValueError\<close>; and whenever the constructor returns a run, with whatever
  logger, exactly one of the two sources was given.
\<close>

theorem BenchmarkRun_init_exactly_one_source:
  "BenchmarkRun_init (Some lg) (Some res) (Some inst) =
     Inl (ValueError ''Only one of benchmark_result and benchmark_instance can be provided'') \<and>
   BenchmarkRun_init (Some lg) None None =
     Inl (ValueError ''Either benchmark_result or benchmark_instance must be provided'') \<and>
   (BenchmarkRun_init any_logger r i = Inr run \<longrightarrow> (r = None) \<noteq> (i = None))"
  by (cases r; cases i; cases any_logger)
     (simp_all add: BenchmarkRun_init_def log_call_def and_then_def)

theorem BenchmarkRun_init_exactly_one_source_witness:
  "BenchmarkRun_init (Some Logger) None
     (Some \<lparr>BENCHMARK_TYPE = checkpointing, args_model = Some ''llama3-8b'',
            args_command = None, args_num_processes = PInt 8,
            inst_run_datetime = ''20250101_120000'', combined_params = None,
            args_vars = PDict [(''model'', PStr ''llama3-8b'')], params_dict = [],
            cluster_information = None\<rparr>) =
   Inr \<lparr>benchmark_type = Some checkpointing, model = Some ''llama3-8b'', accelerator = None,
        command = None, num_processes = PInt 8,
        parameters = PDict [(''model'', PStr ''llama3-8b'')],
        override_parameters = [], system_info = None, metrics = PDict [],
        run_id_attr = Some \<lparr>program = ''checkpointing'', rid_command = None,
                            rid_model = Some ''llama3-8b'',
                            rid_run_datetime = PStr ''20250101_120000''\<rparr>,
        category = None, issues = [], run_datetime = PStr ''20250101_120000'',
        benchmark_result = None,
        benchmark_instance =
          Some \<lparr>BENCHMARK_TYPE = checkpointing, args_model = Some ''llama3-8b'',
                 args_command = None, args_num_processes = PInt 8,
                 inst_run_datetime = ''20250101_120000'', combined_params = None,
                 args_vars = PDict [(''model'', PStr ''llama3-8b'')], params_dict = [],
                 cluster_information = None\<rparr>,
        post_execution = False\<rparr> \<and>
   ((None :: BenchmarkResult option) = None) \<noteq>
   (Some \<lparr>BENCHMARK_TYPE = checkpointing, args_model = Some ''llama3-8b'',
          args_command = None, args_num_processes = PInt 8,
          inst_run_datetime = ''20250101_120000'', combined_params = None,
          args_vars = PDict [(''model'', PStr ''llama3-8b'')], params_dict = [],
          cluster_information = None\<rparr> = None)"
  using BenchmarkRun_init_exactly_one_source
    [of Logger _ _ "Some Logger" None
        "Some \<lparr>BENCHMARK_TYPE = checkpointing, args_model = Some ''llama3-8b'',
               args_command = None, args_num_processes = PInt 8,
               inst_run_datetime = ''20250101_120000'', combined_params = None,
               args_vars = PDict [(''model'', PStr ''llama3-8b'')], params_dict = [],
               cluster_information = None\<rparr>"]
  by (simp add: BenchmarkRun_init_def initial_run_def process_benchmark_instance_def and_then_def
      log_call_def)

text \<open>
  With the default logger \<^verbatim>\<open>None\<close> the log call that precedes each raise fails first,
  so both argument faults surface as \<^verbatim>\<open>AttributeError\<close>, and no construction returns
  a run.
\<close>

lemma BenchmarkRun_init_default_logger:
  "BenchmarkRun_init None (Some res) (Some inst) = Inl (no_attribute ''NoneType'' ''error'') \<and>
   BenchmarkRun_init None None None = Inl (no_attribute ''NoneType'' ''error'') \<and>
   BenchmarkRun_init None r i \<noteq> Inr run"
  by (cases r; cases i)
     (auto simp: BenchmarkRun_init_def log_call_def and_then_def split: sum.splits option.splits)

text \<open>
  Every run that the constructor returns has a run id: a run built from result files keeps
  its result.
\<close>

lemma and_then_Inr: "and_then r f = Inr y \<Longrightarrow> \<exists>x. r = Inr x \<and> f x = Inr y"
  by (cases r) (simp_all add: and_then_def)

lemma process_benchmark_result_keeps_source:
  assumes "process_benchmark_result res run0 = Inr run"
  shows "benchmark_result run = benchmark_result run0"
  using assms
  unfolding process_benchmark_result_def Let_def
  by (auto dest!: and_then_Inr)

lemma BenchmarkRun_init_has_run_id:
  assumes "BenchmarkRun_init lg res inst = Inr run"
  shows "\<exists>rid. run_id run = Inr rid"
proof (cases inst)
  case (Some i)
  with assms have "post_execution run = False"
    by (auto simp: BenchmarkRun_init_def and_then_def log_call_def split: if_splits option.splits)
  then show ?thesis by (simp add: run_id_def)
next
  case None
  with assms obtain r where r: "res = Some r"
    by (cases res) (auto simp: BenchmarkRun_init_def and_then_def log_call_def split: option.splits)
  with None assms obtain run1 where
    p: "process_benchmark_result r (initial_run res inst) = Inr run1" and
    b: "benchmark_result run = benchmark_result run1"
    by (auto simp: BenchmarkRun_init_def and_then_def log_call_def split: sum.splits option.splits)
  from process_benchmark_result_keeps_source [OF p] b r
  have "benchmark_result run = Some r" by (simp add: initial_run_def)
  then show ?thesis by (simp add: run_id_def)
qed

text \<open>
  Claim C10. For a run of benchmark type checkpointing (with a run id, as every
  constructed run has), building the verifier for that single run and calling
  \<^verbatim>\<open>verify\<close> returns CLOSED, and leaves the run with the empty finding list and the
  category CLOSED: the checker is the checkpointing single-run checker, whose one check
  returns nothing. This holds whatever the single-run training checker is.
\<close>

theorem checkpointing_single_run_closed:
  assumes "benchmark_type run = Some checkpointing" and "run_id run = Inr rid"
  shows "and_then (BenchmarkVerifier_init training_checker [run]) verify =
           Inr (CLOSED,
                \<lparr>mode = single,
                 benchmark_runs = [run\<lparr>issues := [], category := Some CLOSED\<rparr>],
                 rules_checker = Some (CheckpointingRunRulesChecker run),
                 verifier_issues = []\<rparr>)"
  using assms
  by (simp add: BenchmarkVerifier_init_def and_then_def verify_def announce_def
      CheckpointingRunRulesChecker_def run_checks_def on_first_run_def Let_def)

theorem checkpointing_single_run_closed_witness:
  "and_then (BenchmarkVerifier_init (\<lambda>r. [])
              [(initial_run None None)\<lparr>benchmark_type := Some checkpointing\<rparr>]) verify =
           Inr (CLOSED,
                \<lparr>mode = single,
                 benchmark_runs = [(initial_run None None)\<lparr>benchmark_type := Some checkpointing, issues := [], category := Some CLOSED\<rparr>],
                 rules_checker = Some (CheckpointingRunRulesChecker ((initial_run None None)\<lparr>benchmark_type := Some checkpointing\<rparr>)),
                 verifier_issues = []\<rparr>)"
  using checkpointing_single_run_closed [of "(initial_run None None)\<lparr>benchmark_type := Some checkpointing\<rparr>" "Inr None" "\<lambda>r. []"]
  by (simp add: run_id_def initial_run_def)
end
